theory Spec2Isabelle
  imports Main "HOL-Library.Word"
begin

section \<open>Data model\<close>

text \<open>
  The package \<open>auction\<close> (auction.go, bidder.go and the in-memory store) is embedded
  function by function.

  \<^item> \<open>uuid.UUID\<close> is a 16 byte array: a 128 bit word; \<open>uuid.Nil\<close> is \<open>0\<close>.
  \<^item> \<open>time.Time\<close> is an instant on the time line: an \<open>int\<close>; \<open>Before\<close> is \<open><\<close>
    and the zero value \<open>time.Time{}\<close> is \<open>0\<close>. The clock \<open>time.Now()\<close> and the generator
    \<open>uuid.New()\<close> are inputs of the functions that call them.
  \<^item> The amounts are \<open>float64\<close> in the source. The code only adds two amounts and
    compares amounts, with each other and with \<open>0\<close>. The amounts are therefore kept of an
    arbitrary type \<open>'a\<close> with an addition, a zero and a linear order: no law of addition
    is assumed, so nothing below depends on how a sum is rounded; the order is total, so
    the development is about amounts that are not NaN.
  \<^item> A function that returns only \<open>error\<close> returns \<open>error option\<close> (\<open>None\<close> is
    \<open>nil\<close>); when it also changes the store, the store after the call is returned with it.
\<close>

type_synonym uuid = "128 word"

type_synonym time = int

text \<open>
  Errors. \<open>ErrExceededMaxBid\<close> is the package level sentinel of bidder.go. The other
  constructors stand for the call sites of \<open>errors.New\<close> and \<open>fmt.Errorf\<close>, named by
  what they report; the formatted amounts of the messages are left out. A constructor with
  an \<open>error\<close> argument is a \<open>fmt.Errorf\<close> with the verb \<open>%w\<close>, which wraps that error.

  \<^item> \<open>ErrExceededMaxBid\<close>: "exceeded maximum bid" (bidder.go).
  \<^item> \<open>BidderAlreadyExists\<close>: "bidder already exists" (\<open>AddBidder\<close>).
  \<^item> \<open>BidderNotFound\<close>: "bidder not found" (\<open>GetBidder\<close>).
  \<^item> \<open>NoWinner\<close>: "no winner" (\<open>DetermineWinner\<close>).
  \<^item> \<open>InsufficientBidders\<close>: "auction must have at least two bidders".
  \<^item> \<open>DuplicateBidderID\<close>: "duplicate bidder ID detected: %s".
  \<^item> \<open>StartingBidNotPositive\<close>, \<open>MaxBidBelowStartingBid\<close>, \<open>AutoIncrementNotPositive\<close>:
    the three errors of \<open>validateBidder\<close>.
  \<^item> \<open>BelowStartingBid\<close>: "bid amount ... is less than starting bid ...".
  \<^item> \<open>BidNotIncreasing\<close>: "bid amount ... is less than or equal to current bid ...".
  \<^item> \<open>ExceededMaxBid\<close>: "%w: bid amount ... is greater than max bid ...".
  \<^item> \<open>InvalidBidderData\<close>: "invalid bidder data for bidder ID %s: %w".
  \<^item> \<open>InvalidAuctionData\<close>: "invalid auction data: %w" (\<open>NewAuction\<close>).
  \<^item> \<open>FailedToAddBidder\<close>, \<open>FailedToGetBidder\<close>, \<open>FailedToUpdateBidder\<close>,
    \<open>FailedToListBidders\<close>: "failed to ... bidder(s): %w".
\<close>

datatype error =
    ErrExceededMaxBid
  | BidderAlreadyExists
  | BidderNotFound
  | NoWinner
  | InsufficientBidders
  | DuplicateBidderID uuid
  | StartingBidNotPositive
  | MaxBidBelowStartingBid
  | AutoIncrementNotPositive
  | BelowStartingBid
  | BidNotIncreasing
  | ExceededMaxBid error
  | InvalidBidderData uuid error
  | InvalidAuctionData error
  | FailedToAddBidder error
  | FailedToGetBidder error
  | FailedToUpdateBidder error
  | FailedToListBidders error

text \<open>The chain of an error: the error itself, then what \<open>Unwrap\<close> gives, repeatedly.\<close>

fun chain :: "error \<Rightarrow> error list" where
  "chain (ExceededMaxBid e) = ExceededMaxBid e # chain e"
| "chain (InvalidBidderData u e) = InvalidBidderData u e # chain e"
| "chain (InvalidAuctionData e) = InvalidAuctionData e # chain e"
| "chain (FailedToAddBidder e) = FailedToAddBidder e # chain e"
| "chain (FailedToGetBidder e) = FailedToGetBidder e # chain e"
| "chain (FailedToUpdateBidder e) = FailedToUpdateBidder e # chain e"
| "chain (FailedToListBidders e) = FailedToListBidders e # chain e"
| "chain e = [e]"

text \<open>\<open>errors.Is(err, target)\<close>: some error of the chain of \<open>err\<close> is the target. It is
  used with the sentinel as the target, which is one value; the other errors are made
  anew at each call.\<close>

definition errors_Is :: "error \<Rightarrow> error \<Rightarrow> bool" where
  "errors_Is err target \<longleftrightarrow> target \<in> set (chain err)"

text \<open>bidder.go: the structs \<open>bidder\<close> and \<open>NewBidder\<close>.\<close>

record 'a bidder =
  ID :: uuid
  Name :: string
  StartingBid :: 'a
  MaxBid :: 'a
  CurrentBid :: 'a
  AutoIncrement :: 'a
  LastBidTime :: time

record 'a NewBidder =
  nb_ID :: uuid
  nb_Name :: string
  nb_StartingBid :: 'a
  nb_MaxBid :: 'a
  nb_CurrentBid :: 'a
  nb_AutoIncrement :: 'a
  nb_LastBidTime :: time

definition toNewBidder :: "'a NewBidder \<Rightarrow> 'a bidder" where
  "toNewBidder bdr =
     \<lparr>ID = nb_ID bdr, Name = nb_Name bdr, StartingBid = nb_StartingBid bdr,
      MaxBid = nb_MaxBid bdr, CurrentBid = nb_CurrentBid bdr,
      AutoIncrement = nb_AutoIncrement bdr, LastBidTime = nb_LastBidTime bdr\<rparr>"

definition toNewBidders :: "'a NewBidder list \<Rightarrow> 'a bidder list" where
  "toNewBidders bidders = map toNewBidder bidders"

text \<open>The zero value of \<open>bidder\<close>, as \<open>var wbdr bidder\<close> declares it.\<close>

definition zero_bidder :: "'a::zero bidder" where
  "zero_bidder =
     \<lparr>ID = 0, Name = [], StartingBid = 0, MaxBid = 0, CurrentBid = 0,
      AutoIncrement = 0, LastBidTime = 0\<rparr>"

section \<open>The in-memory store\<close>

text \<open>
  \<open>InMemoryStore.bidders\<close> is a \<open>map[uuid.UUID]*bidder\<close>. Every pointer stored in it
  points to a value of its own (a fresh copy in \<open>toNewBidders\<close>, the local copy of
  \<open>PlaceBid\<close>), and \<open>GetBidder\<close> and \<open>ListBidders\<close> copy the values out, so the map is a
  map to values. The lock is not part of the sequential model.
\<close>

type_synonym 'a store = "uuid \<rightharpoonup> 'a bidder"

definition NewInMemoryStore :: "'a store" where
  "NewInMemoryStore = Map.empty"

definition AddBidder :: "'a store \<Rightarrow> 'a bidder \<Rightarrow> error option \<times> 'a store" where
  "AddBidder store bidder =
     (if store (ID bidder) \<noteq> None then (Some BidderAlreadyExists, store)
      else (None, store(ID bidder \<mapsto> bidder)))"

definition GetBidder :: "'a store \<Rightarrow> uuid \<Rightarrow> error + 'a bidder" where
  "GetBidder store id' =
     (case store id' of None \<Rightarrow> Inl BidderNotFound | Some bdr \<Rightarrow> Inr bdr)"

definition UpdateBidder :: "'a store \<Rightarrow> 'a bidder \<Rightarrow> error option \<times> 'a store" where
  "UpdateBidder store bidder = (None, store(ID bidder \<mapsto> bidder))"

text \<open>
  \<open>ListBidders\<close> ranges over the map, in an order that Go leaves unspecified. The order
  is an input: the list of the keys as the iteration meets them.
\<close>

definition ListBidders :: "'a store \<Rightarrow> uuid list \<Rightarrow> error + 'a bidder list" where
  "ListBidders store order = Inr (List.map_filter store order)"

section \<open>The auction\<close>

record 'a Auction =
  storer :: "'a store"
  Auction_ID :: uuid

record 'a NewAuctionConfig =
  Bidders :: "'a NewBidder list"

record Winner =
  Winner_ID :: uuid
  Winner_Name :: string

definition validateBidder :: "('a::{zero,linorder}) NewBidder \<Rightarrow> error option" where
  "validateBidder b =
     (if nb_StartingBid b \<le> 0 then Some StartingBidNotPositive
      else if nb_MaxBid b < nb_StartingBid b then Some MaxBidBelowStartingBid
      else if nb_AutoIncrement b \<le> 0 then Some AutoIncrementNotPositive
      else None)"

text \<open>The loop of \<open>validateAuctionData\<close>, with the map \<open>seenIDs\<close> as its state.\<close>

fun validateLoop :: "(uuid \<rightharpoonup> bool) \<Rightarrow> ('a::{zero,linorder}) NewBidder list \<Rightarrow> error option" where
  "validateLoop seenIDs [] = None"
| "validateLoop seenIDs (bidder # rest) =
     (if seenIDs (nb_ID bidder) \<noteq> None then Some (DuplicateBidderID (nb_ID bidder))
      else (case validateBidder bidder of
              Some err \<Rightarrow> Some (InvalidBidderData (nb_ID bidder) err)
            | None \<Rightarrow> validateLoop (seenIDs(nb_ID bidder \<mapsto> True)) rest))"

definition validateAuctionData :: "('a::{zero,linorder}) NewAuctionConfig \<Rightarrow> error option" where
  "validateAuctionData na =
     (if length (Bidders na) \<le> 1 then Some InsufficientBidders
      else validateLoop Map.empty (Bidders na))"

text \<open>The loop of \<open>NewAuction\<close> that adds the bidders to the store.\<close>

fun addBidders :: "'a store \<Rightarrow> 'a bidder list \<Rightarrow> error + 'a store" where
  "addBidders store [] = Inr store"
| "addBidders store (bdr # bdrs) =
     (case AddBidder store bdr of
        (Some err, _) \<Rightarrow> Inl (FailedToAddBidder err)
      | (None, store') \<Rightarrow> addBidders store' bdrs)"

text \<open>\<open>NewAuction\<close>; \<open>new_id\<close> is what \<open>uuid.New()\<close> returns.\<close>

definition NewAuction :: "('a::{zero,linorder}) NewAuctionConfig \<Rightarrow> uuid \<Rightarrow> error + 'a Auction" where
  "NewAuction na new_id =
     (case validateAuctionData na of
        Some err \<Rightarrow> Inl (InvalidAuctionData err)
      | None \<Rightarrow>
          (case addBidders NewInMemoryStore (toNewBidders (Bidders na)) of
             Inl err \<Rightarrow> Inl err
           | Inr store \<Rightarrow> Inr \<lparr>storer = store, Auction_ID = new_id\<rparr>))"

text \<open>\<open>PlaceBid\<close>; \<open>now\<close> is what \<open>time.Now()\<close> returns. The auction after the call is
  returned with the error.\<close>

definition PlaceBid :: "('a::{plus,linorder}) Auction \<Rightarrow> uuid \<Rightarrow> time \<Rightarrow> error option \<times> 'a Auction" where
  "PlaceBid a id' now =
     (case GetBidder (storer a) id' of
        Inl err \<Rightarrow> (Some (FailedToGetBidder err), a)
      | Inr bidder \<Rightarrow>
          (let bidAmount = CurrentBid bidder + AutoIncrement bidder in
           if bidAmount < StartingBid bidder then (Some BelowStartingBid, a)
           else if bidAmount > MaxBid bidder then (Some (ExceededMaxBid ErrExceededMaxBid), a)
           else if bidAmount \<le> CurrentBid bidder then (Some BidNotIncreasing, a)
           else
             (case UpdateBidder (storer a) (bidder\<lparr>CurrentBid := bidAmount, LastBidTime := now\<rparr>) of
                (Some err, store') \<Rightarrow> (Some (FailedToUpdateBidder err), a\<lparr>storer := store'\<rparr>)
              | (None, store') \<Rightarrow> (None, a\<lparr>storer := store'\<rparr>))))"

text \<open>A sequence of calls of \<open>PlaceBid\<close>, each with its identifier and its clock
  reading; the caller goes on after an error.\<close>

fun PlaceBids :: "('a::{plus,linorder}) Auction \<Rightarrow> (uuid \<times> time) list \<Rightarrow> 'a Auction" where
  "PlaceBids a [] = a"
| "PlaceBids a ((id', now) # calls) = PlaceBids (snd (PlaceBid a id' now)) calls"

definition isWinner :: "('a::linorder) bidder \<Rightarrow> 'a bidder \<Rightarrow> bool" where
  "isWinner currentWinner bidder \<longleftrightarrow>
     Name currentWinner = [] \<or>
     CurrentBid bidder < CurrentBid currentWinner \<or>
     (CurrentBid bidder = CurrentBid currentWinner \<and>
      LastBidTime bidder < LastBidTime currentWinner)"

text \<open>The loop of \<open>DetermineWinner\<close> over the listed bidders.\<close>

fun winnerLoop :: "('a::linorder) bidder \<Rightarrow> 'a bidder list \<Rightarrow> 'a bidder" where
  "winnerLoop wbdr [] = wbdr"
| "winnerLoop wbdr (bidder # bdrs) =
     winnerLoop (if isWinner wbdr bidder then bidder else wbdr) bdrs"

text \<open>\<open>DetermineWinner\<close>; \<open>order\<close> is the order in which \<open>ListBidders\<close> meets the keys.\<close>

definition DetermineWinner :: "('a::{zero,linorder}) Auction \<Rightarrow> uuid list \<Rightarrow> error + Winner" where
  "DetermineWinner a order =
     (case ListBidders (storer a) order of
        Inl err \<Rightarrow> Inl (FailedToListBidders err)
      | Inr bdrs \<Rightarrow>
          (let wbdr = winnerLoop zero_bidder bdrs in
           if Name wbdr = [] then Inl NoWinner
           else Inr \<lparr>Winner_ID = ID wbdr, Winner_Name = Name wbdr\<rparr>))"

section \<open>The invariant of the store, and the data of the tests\<close>


text \<open>The bidders of \<open>TestConcurrencyInAuction\<close>: \<open>createBidder\<close> sets the current bid
  to the starting bid and the time of the last bid to the zero time.\<close>

definition Sasha :: "int NewBidder" where
  "Sasha = \<lparr>nb_ID = 1, nb_Name = ''Sasha'', nb_StartingBid = 50, nb_MaxBid = 80,
            nb_CurrentBid = 50, nb_AutoIncrement = 3, nb_LastBidTime = 0\<rparr>"

definition John :: "int NewBidder" where
  "John = \<lparr>nb_ID = 2, nb_Name = ''John'', nb_StartingBid = 60, nb_MaxBid = 82,
           nb_CurrentBid = 60, nb_AutoIncrement = 2, nb_LastBidTime = 0\<rparr>"

definition Pat :: "int NewBidder" where
  "Pat = \<lparr>nb_ID = 3, nb_Name = ''Pat'', nb_StartingBid = 55, nb_MaxBid = 85,
          nb_CurrentBid = 55, nb_AutoIncrement = 5, nb_LastBidTime = 0\<rparr>"

definition test_config :: "int NewAuctionConfig" where
  "test_config = \<lparr>Bidders = [Sasha, John, Pat]\<rparr>"

text \<open>The auction that \<open>NewAuction\<close> builds from them.\<close>

definition test_auction :: "int Auction" where
  "test_auction =
     \<lparr>storer = Map.empty(1 \<mapsto> toNewBidder Sasha, 2 \<mapsto> toNewBidder John,
                           3 \<mapsto> toNewBidder Pat),
      Auction_ID = 9\<rparr>"

text \<open>A configuration whose second bidder has a maximum below the starting bid, and one
  whose first bidder comes with a current bid above the maximum.\<close>

definition unsound_config :: "int NewAuctionConfig" where
  "unsound_config = \<lparr>Bidders = [Sasha, John\<lparr>nb_MaxBid := 59\<rparr>, Pat]\<rparr>"

definition overbid_config :: "int NewAuctionConfig" where
  "overbid_config = \<lparr>Bidders = [Sasha\<lparr>nb_CurrentBid := 100\<rparr>, John]\<rparr>"

definition overbid_auction :: "int Auction" where
  "overbid_auction =
     \<lparr>storer = Map.empty(1 \<mapsto> toNewBidder (Sasha\<lparr>nb_CurrentBid := 100\<rparr>),
                           2 \<mapsto> toNewBidder John),
      Auction_ID = 9\<rparr>"


text \<open>Ten bids of Sasha, at the times 1 to 10.\<close>

definition ten_bids :: "(uuid \<times> time) list" where
  "ten_bids = [(1, 1), (1, 2), (1, 3), (1, 4), (1, 5), (1, 6), (1, 7), (1, 8), (1, 9), (1, 10)]"

text \<open>Two bidders at the same current bid of 78, the first with the earlier bid.\<close>

definition tie_A :: "int bidder" where
  "tie_A = \<lparr>ID = 1, Name = ''A'', StartingBid = 50, MaxBid = 80, CurrentBid = 78,
            AutoIncrement = 4, LastBidTime = 5\<rparr>"

definition tie_B :: "int bidder" where
  "tie_B = \<lparr>ID = 2, Name = ''B'', StartingBid = 60, MaxBid = 80, CurrentBid = 78,
            AutoIncrement = 3, LastBidTime = 7\<rparr>"

definition tie_auction :: "int Auction" where
  "tie_auction = \<lparr>storer = Map.empty(1 \<mapsto> tie_A, 2 \<mapsto> tie_B), Auction_ID = 9\<rparr>"

text \<open>A configuration that \<open>validateAuctionData\<close> accepts, with a bidder of empty name
  and a current bid of 5 and a bidder named N with a current bid of 10, and its auction.\<close>

definition unnamed_U :: "int NewBidder" where
  "unnamed_U = \<lparr>nb_ID = 1, nb_Name = [], nb_StartingBid = 5, nb_MaxBid = 20,
                nb_CurrentBid = 5, nb_AutoIncrement = 1, nb_LastBidTime = 0\<rparr>"

definition named_N :: "int NewBidder" where
  "named_N = \<lparr>nb_ID = 2, nb_Name = ''N'', nb_StartingBid = 10, nb_MaxBid = 20,
              nb_CurrentBid = 10, nb_AutoIncrement = 1, nb_LastBidTime = 0\<rparr>"

definition unnamed_config :: "int NewAuctionConfig" where
  "unnamed_config = \<lparr>Bidders = [unnamed_U, named_N]\<rparr>"

definition unnamed_auction :: "int Auction" where
  "unnamed_auction =
     \<lparr>storer = Map.empty(1 \<mapsto> toNewBidder unnamed_U, 2 \<mapsto> toNewBidder named_N),
      Auction_ID = 9\<rparr>"

text \<open>The comparison of \<open>isWinner\<close>: a lower current bid, or the same current bid
  placed earlier.\<close>

definition beats :: "('a::linorder) bidder \<Rightarrow> 'a bidder \<Rightarrow> bool" where
  "beats c w \<longleftrightarrow>
     CurrentBid c < CurrentBid w \<or>
     (CurrentBid c = CurrentBid w \<and> LastBidTime c < LastBidTime w)"

section \<open>Construction and the invariant\<close>


lemma validateLoop_None:
  "validateLoop seenIDs bs = None \<longleftrightarrow>
     (\<forall>b\<in>set bs. validateBidder b = None \<and> seenIDs (nb_ID b) = None) \<and> distinct (map nb_ID bs)"
proof (induction bs arbitrary: seenIDs)
  case Nil
  show ?case by simp
next
  case (Cons b bs)
  show ?case
  proof (cases "seenIDs (nb_ID b) = None \<and> validateBidder b = None")
    case True
    then have eq: "validateLoop seenIDs (b # bs) = validateLoop (seenIDs(nb_ID b \<mapsto> True)) bs"
      by simp
    have upd: "(seenIDs(nb_ID b \<mapsto> True)) (nb_ID c) = None \<longleftrightarrow>
        nb_ID c \<noteq> nb_ID b \<and> seenIDs (nb_ID c) = None" for c :: "'a NewBidder"
      by simp
    have "nb_ID b \<notin> nb_ID ` set bs \<longleftrightarrow> (\<forall>c\<in>set bs. nb_ID c \<noteq> nb_ID b)"
      by (auto simp: image_iff)
    then show ?thesis
      unfolding eq Cons.IH upd using True by auto
  next
    case False
    then show ?thesis by (auto split: option.splits)
  qed
qed

lemma validateAuctionData_None:
  "validateAuctionData na = None \<longleftrightarrow>
     2 \<le> length (Bidders na) \<and> (\<forall>b\<in>set (Bidders na). validateBidder b = None) \<and>
     distinct (map nb_ID (Bidders na))"
  by (auto simp: validateAuctionData_def validateLoop_None)

lemma addBidders_fresh:
  "distinct (map ID bdrs) \<Longrightarrow> \<forall>b\<in>set bdrs. store (ID b) = None \<Longrightarrow>
     \<exists>store'. addBidders store bdrs = Inr store' \<and>
       (\<forall>b\<in>set bdrs. store' (ID b) = Some b) \<and>
       (\<forall>k. k \<notin> ID ` set bdrs \<longrightarrow> store' k = store k)"
proof (induction bdrs arbitrary: store)
  case Nil
  show ?case by simp
next
  case (Cons b bdrs)
  let ?s = "store(ID b \<mapsto> b)"
  have step: "AddBidder store b = (None, ?s)"
    using Cons.prems by (simp add: AddBidder_def)
  have fresh: "ID b \<notin> ID ` set bdrs"
    using Cons.prems by simp
  then have "\<forall>c\<in>set bdrs. ID c \<noteq> ID b"
    by (auto simp: image_iff)
  then have "distinct (map ID bdrs)" and "\<forall>c\<in>set bdrs. ?s (ID c) = None"
    using Cons.prems by simp_all
  from Cons.IH [OF this] obtain store' where
    run: "addBidders ?s bdrs = Inr store'" and
    new: "\<forall>c\<in>set bdrs. store' (ID c) = Some c" and
    old: "\<forall>k. k \<notin> ID ` set bdrs \<longrightarrow> store' k = ?s k"
    by blast
  from fresh old have "store' (ID b) = Some b" by simp
  moreover have "\<forall>k. k \<notin> ID ` set (b # bdrs) \<longrightarrow> store' k = store k"
    using old by auto
  ultimately show ?case
    using step run new by simp
qed

lemma ID_toNewBidder: "ID (toNewBidder b) = nb_ID b"
  by (simp add: toNewBidder_def)

lemma map_ID_toNewBidders: "map ID (toNewBidders bs) = map nb_ID bs"
  by (simp add: toNewBidders_def ID_toNewBidder)

lemma NewAuction_Inr:
  assumes "NewAuction na new_id = Inr a"
  shows "validateAuctionData na = None"
    and "\<forall>b\<in>set (Bidders na). storer a (nb_ID b) = Some (toNewBidder b)"
    and "\<forall>k. k \<notin> nb_ID ` set (Bidders na) \<longrightarrow> storer a k = None"
    and "Auction_ID a = new_id"
proof -
  show v: "validateAuctionData na = None"
    using assms by (auto simp: NewAuction_def split: option.splits)
  then have d: "distinct (map ID (toNewBidders (Bidders na)))"
    by (simp add: validateAuctionData_None map_ID_toNewBidders)
  have "\<forall>b\<in>set (toNewBidders (Bidders na)). (NewInMemoryStore :: 'a store) (ID b) = None"
    by (simp add: NewInMemoryStore_def)
  from addBidders_fresh [OF d this] obtain store' where
    run: "addBidders NewInMemoryStore (toNewBidders (Bidders na)) = Inr store'" and
    new: "\<forall>b\<in>set (toNewBidders (Bidders na)). store' (ID b) = Some b" and
    old: "\<forall>k. k \<notin> ID ` set (toNewBidders (Bidders na)) \<longrightarrow> store' k = (NewInMemoryStore :: 'a store) k"
    by blast
  have a: "a = \<lparr>storer = store', Auction_ID = new_id\<rparr>"
    using assms v run by (simp add: NewAuction_def)
  show "\<forall>b\<in>set (Bidders na). storer a (nb_ID b) = Some (toNewBidder b)"
    using new by (simp add: a toNewBidders_def ID_toNewBidder)
  have "ID ` set (toNewBidders (Bidders na)) = nb_ID ` set (Bidders na)"
    by (simp add: toNewBidders_def image_image ID_toNewBidder)
  with old show "\<forall>k. k \<notin> nb_ID ` set (Bidders na) \<longrightarrow> storer a k = None"
    by (simp add: a NewInMemoryStore_def)
  show "Auction_ID a = new_id" by (simp add: a)
qed

lemma NewAuction_succeeds:
  assumes "validateAuctionData na = None"
  shows "\<exists>a. NewAuction na new_id = Inr a"
proof -
  have d: "distinct (map ID (toNewBidders (Bidders na)))"
    using assms by (simp add: validateAuctionData_None map_ID_toNewBidders)
  have "\<forall>b\<in>set (toNewBidders (Bidders na)). (NewInMemoryStore :: 'a store) (ID b) = None"
    by (simp add: NewInMemoryStore_def)
  from addBidders_fresh [OF d this] obtain store' where
    "addBidders NewInMemoryStore (toNewBidders (Bidders na)) = Inr store'"
    by blast
  then show ?thesis
    using assms by (simp add: NewAuction_def)
qed











section \<open>The scan of the winner\<close>

lemma isWinner_beats: "isWinner w c \<longleftrightarrow> Name w = [] \<or> beats c w"
  by (simp add: isWinner_def beats_def)

lemma beats_trans: "beats a b \<Longrightarrow> beats b c \<Longrightarrow> beats a c"
  by (auto simp: beats_def)

lemma beats_cotrans: "beats a c \<Longrightarrow> \<not> beats a b \<Longrightarrow> beats b c"
  by (auto simp: beats_def)

lemma winnerLoop_mem: "winnerLoop w bdrs \<in> insert w (set bdrs)"
  by (induction bdrs arbitrary: w) (simp, simp, blast)

lemma winnerLoop_least:
  assumes "Name w \<noteq> []" and "\<forall>b\<in>set bdrs. Name b \<noteq> []"
  shows "\<forall>c\<in>insert w (set bdrs). \<not> beats c (winnerLoop w bdrs)"
  using assms
proof (induction bdrs arbitrary: w)
  case Nil
  then show ?case by (simp add: beats_def)
next
  case (Cons b bdrs)
  let ?w = "if isWinner w b then b else w"
  let ?r = "winnerLoop ?w bdrs"
  have named: "Name ?w \<noteq> []" and rest: "\<forall>c\<in>set bdrs. Name c \<noteq> []"
    using Cons.prems by simp_all
  from Cons.IH [OF this] have least: "\<forall>c\<in>insert ?w (set bdrs). \<not> beats c ?r" .
  have "\<not> beats w ?r \<and> \<not> beats b ?r"
  proof (cases "isWinner w b")
    case True
    then have "beats b w" using Cons.prems(1) by (simp add: isWinner_beats)
    moreover have "\<not> beats b ?r" using least True by simp
    ultimately show ?thesis using beats_trans by blast
  next
    case False
    then have "\<not> beats b w" by (simp add: isWinner_beats)
    moreover have "\<not> beats w ?r" using least False by simp
    ultimately show ?thesis using beats_cotrans by blast
  qed
  then show ?case using least by simp
qed

lemma winnerLoop_zero_Cons: "winnerLoop zero_bidder (b # bdrs) = winnerLoop b bdrs"
  by (simp add: isWinner_def zero_bidder_def)

lemma winnerLoop_named:
  assumes "bdrs \<noteq> []" and "\<forall>b\<in>set bdrs. Name b \<noteq> []"
  shows "winnerLoop zero_bidder bdrs \<in> set bdrs"
    and "\<forall>c\<in>set bdrs. \<not> beats c (winnerLoop zero_bidder bdrs)"
proof -
  from assms(1) obtain b bs where bdrs: "bdrs = b # bs" by (cases bdrs) auto
  have "winnerLoop b bs \<in> insert b (set bs)" by (rule winnerLoop_mem)
  then show "winnerLoop zero_bidder bdrs \<in> set bdrs"
    unfolding bdrs winnerLoop_zero_Cons by simp
  have "Name b \<noteq> []" and "\<forall>c\<in>set bs. Name c \<noteq> []"
    using assms(2) by (simp_all add: bdrs)
  from winnerLoop_least [OF this]
  show "\<forall>c\<in>set bdrs. \<not> beats c (winnerLoop zero_bidder bdrs)"
    unfolding bdrs winnerLoop_zero_Cons by simp
qed

lemma winnerLoop_unnamed:
  assumes "\<forall>b\<in>set bdrs. Name b = []"
  shows "Name (winnerLoop zero_bidder bdrs) = []"
proof -
  have "winnerLoop zero_bidder bdrs \<in> insert zero_bidder (set bdrs)"
    by (rule winnerLoop_mem)
  moreover have "Name (zero_bidder :: 'a bidder) = []"
    by (simp add: zero_bidder_def)
  ultimately show ?thesis using assms by auto
qed

lemma DetermineWinner_listed:
  "ListBidders (storer a) order = Inr bdrs \<Longrightarrow>
     DetermineWinner a order =
       (if Name (winnerLoop zero_bidder bdrs) = [] then Inl NoWinner
        else Inr \<lparr>Winner_ID = ID (winnerLoop zero_bidder bdrs),
                  Winner_Name = Name (winnerLoop zero_bidder bdrs)\<rparr>)"
  by (simp add: DetermineWinner_def Let_def)

section \<open>Evaluation on the data of the tests\<close>

lemmas eval_simps =
  NewAuction_def validateAuctionData_def validateBidder_def toNewBidders_def toNewBidder_def
  AddBidder_def NewInMemoryStore_def PlaceBid_def GetBidder_def UpdateBidder_def Let_def
  ListBidders_def DetermineWinner_def isWinner_def zero_bidder_def
  Sasha_def John_def Pat_def test_config_def test_auction_def


lemma overbid_auction_built: "NewAuction overbid_config 9 = Inr overbid_auction"
  by (simp add: eval_simps overbid_config_def overbid_auction_def)

lemma unnamed_auction_built: "NewAuction unnamed_config 9 = Inr unnamed_auction"
  by (simp add: eval_simps unnamed_config_def unnamed_auction_def unnamed_U_def named_N_def)

lemma ten_bids_run:
  "PlaceBids test_auction ten_bids =
     test_auction\<lparr>storer := (storer test_auction)
        (1 \<mapsto> (toNewBidder Sasha)\<lparr>CurrentBid := 80, LastBidTime := 10\<rparr>)\<rparr>"
  by (simp add: eval_simps ten_bids_def)

section \<open>The claims\<close>

text \<open>
  C8. \<open>UpdateBidder\<close> never fails and overwrites: whatever the store held, after the call
  the identifier of the record is mapped to exactly that record, so that \<open>GetBidder\<close>
  finds it, also when the identifier was absent before; the other identifiers keep what
  they had.
\<close>

theorem UpdateBidder_upsert:
  "UpdateBidder store bidder = (err, store') \<Longrightarrow>
     err = None \<and> store' (ID bidder) = Some bidder \<and>
     GetBidder store' (ID bidder) = Inr bidder \<and>
     (k \<noteq> ID bidder \<longrightarrow> store' k = store k)"
  by (auto simp: UpdateBidder_def GetBidder_def)

theorem UpdateBidder_upsert_witness:
  "GetBidder (storer test_auction) 7 = Inl BidderNotFound \<and>
   UpdateBidder (storer test_auction) (tie_A\<lparr>ID := 7\<rparr>) =
     (None, (storer test_auction)(7 \<mapsto> tie_A\<lparr>ID := 7\<rparr>)) \<and>
   GetBidder ((storer test_auction)(7 \<mapsto> tie_A\<lparr>ID := 7\<rparr>)) 7 = Inr (tie_A\<lparr>ID := 7\<rparr>) \<and>
   ((storer test_auction)(7 \<mapsto> tie_A\<lparr>ID := 7\<rparr>)) 1 = storer test_auction 1"
  using UpdateBidder_upsert [of "storer test_auction" "tie_A\<lparr>ID := 7\<rparr>" None
      "(storer test_auction)(7 \<mapsto> tie_A\<lparr>ID := 7\<rparr>)" 1]
  by (simp add: eval_simps tie_A_def)

text \<open>
  C10. A call of \<open>PlaceBid\<close> that returns an error, whichever it is, leaves the auction as
  it was: the store after the call is the store before it.
\<close>

theorem PlaceBid_failure_atomic:
  "PlaceBid a id' now = (Some err, a') \<Longrightarrow> a' = a \<and> storer a' = storer a"
  by (auto simp: PlaceBid_def GetBidder_def UpdateBidder_def Let_def
      split: option.splits if_splits)

theorem PlaceBid_failure_atomic_witness:
  "PlaceBid (PlaceBids test_auction ten_bids) 1 11 =
     (Some (ExceededMaxBid ErrExceededMaxBid), PlaceBids test_auction ten_bids) \<and>
   PlaceBid test_auction 7 11 = (Some (FailedToGetBidder BidderNotFound), test_auction)"
  using PlaceBid_failure_atomic [of "PlaceBids test_auction ten_bids" 1 11
      "ExceededMaxBid ErrExceededMaxBid" "PlaceBids test_auction ten_bids"]
    PlaceBid_failure_atomic [of test_auction 7 11 "FailedToGetBidder BidderNotFound" test_auction]
  by (simp add: ten_bids_run) (simp add: eval_simps)

text \<open>
  C3. The error of \<open>PlaceBid\<close>: the bidder is not found when the identifier is absent;
  otherwise, with the bid amount the current bid plus the increment, the amount is below
  the starting bid, else above the maximum, else not above the current bid, in this
  order, else there is no error. The error for an amount above the maximum wraps the
  sentinel \<open>ErrExceededMaxBid\<close>, and among the errors of \<open>PlaceBid\<close> it is the only one
  for which \<open>errors.Is\<close> finds the sentinel.
\<close>

theorem PlaceBid_checks:
  "fst (PlaceBid a id' now) =
     (case storer a id' of
        None \<Rightarrow> Some (FailedToGetBidder BidderNotFound)
      | Some b \<Rightarrow>
          if CurrentBid b + AutoIncrement b < StartingBid b then Some BelowStartingBid
          else if MaxBid b < CurrentBid b + AutoIncrement b
            then Some (ExceededMaxBid ErrExceededMaxBid)
          else if CurrentBid b + AutoIncrement b \<le> CurrentBid b then Some BidNotIncreasing
          else None) \<and>
   errors_Is (ExceededMaxBid ErrExceededMaxBid) ErrExceededMaxBid \<and>
   \<not> errors_Is (FailedToGetBidder BidderNotFound) ErrExceededMaxBid \<and>
   \<not> errors_Is BelowStartingBid ErrExceededMaxBid \<and>
   \<not> errors_Is BidNotIncreasing ErrExceededMaxBid \<and>
   (fst (PlaceBid a id' now) = Some err \<longrightarrow>
      (errors_Is err ErrExceededMaxBid \<longleftrightarrow> err = ExceededMaxBid ErrExceededMaxBid))"
  by (auto simp: PlaceBid_def GetBidder_def UpdateBidder_def Let_def errors_Is_def
      split: option.splits)

theorem PlaceBid_checks_witness:
  "fst (PlaceBid (PlaceBids test_auction ten_bids) 1 11) =
     Some (ExceededMaxBid ErrExceededMaxBid) \<and>
   errors_Is (ExceededMaxBid ErrExceededMaxBid) ErrExceededMaxBid \<and>
   fst (PlaceBid test_auction 7 11) = Some (FailedToGetBidder BidderNotFound) \<and>
   \<not> errors_Is (FailedToGetBidder BidderNotFound) ErrExceededMaxBid \<and>
   fst (PlaceBid (test_auction\<lparr>storer := Map.empty(1 \<mapsto> tie_A\<lparr>CurrentBid := 40\<rparr>)\<rparr>) 1 11) =
     Some BelowStartingBid \<and>
   fst (PlaceBid (test_auction\<lparr>storer := Map.empty(1 \<mapsto> tie_A\<lparr>AutoIncrement := 0\<rparr>)\<rparr>) 1 11) =
     Some BidNotIncreasing \<and>
   fst (PlaceBid test_auction 1 11) = None"
  using PlaceBid_checks [of "PlaceBids test_auction ten_bids" 1 11
      "ExceededMaxBid ErrExceededMaxBid"]
    PlaceBid_checks [of test_auction 7 11 "FailedToGetBidder BidderNotFound"]
    PlaceBid_checks [of "test_auction\<lparr>storer := Map.empty(1 \<mapsto> tie_A\<lparr>CurrentBid := 40\<rparr>)\<rparr>"
      1 11 BelowStartingBid]
    PlaceBid_checks [of "test_auction\<lparr>storer := Map.empty(1 \<mapsto> tie_A\<lparr>AutoIncrement := 0\<rparr>)\<rparr>"
      1 11 BidNotIncreasing]
    PlaceBid_checks [of test_auction 1 11 BidNotIncreasing]
  by (simp add: ten_bids_run) (simp add: eval_simps tie_A_def)

text \<open>
  C6. \<open>NewAuction\<close> is all or nothing. When a bidder of the configuration fails
  \<open>validateBidder\<close>, the result is the error "invalid auction data" that wraps the
  validation error, and no auction, hence no store, is returned. When the validation
  passes, an auction is returned. When an auction is returned, its store holds exactly
  the identifiers of the configuration, and under the identifier of each input bidder
  the record with every field as the caller gave it, the current bid and the time of the
  last bid included.
\<close>

theorem NewAuction_all_or_nothing:
  "(b \<in> set (Bidders na) \<and> validateBidder b \<noteq> None \<longrightarrow>
      (\<exists>err. NewAuction na new_id = Inl (InvalidAuctionData err))) \<and>
   (NewAuction na new_id = Inr a \<longrightarrow>
      dom (storer a) = nb_ID ` set (Bidders na) \<and>
      (b \<in> set (Bidders na) \<longrightarrow>
         storer a (nb_ID b) =
           Some \<lparr>ID = nb_ID b, Name = nb_Name b, StartingBid = nb_StartingBid b,
                 MaxBid = nb_MaxBid b, CurrentBid = nb_CurrentBid b,
                 AutoIncrement = nb_AutoIncrement b, LastBidTime = nb_LastBidTime b\<rparr>)) \<and>
   (validateAuctionData na = None \<longrightarrow> (\<exists>a'. NewAuction na new_id = Inr a'))"
proof (intro conjI impI)
  assume "validateAuctionData na = None"
  then show "\<exists>a'. NewAuction na new_id = Inr a'"
    by (rule NewAuction_succeeds)
next
  assume "b \<in> set (Bidders na) \<and> validateBidder b \<noteq> None"
  then have "validateAuctionData na \<noteq> None"
    by (auto simp: validateAuctionData_None)
  then show "\<exists>err. NewAuction na new_id = Inl (InvalidAuctionData err)"
    by (auto simp: NewAuction_def)
next
  assume ok: "NewAuction na new_id = Inr a"
  show "dom (storer a) = nb_ID ` set (Bidders na)"
  proof (rule set_eqI)
    fix k
    show "k \<in> dom (storer a) \<longleftrightarrow> k \<in> nb_ID ` set (Bidders na)"
      using NewAuction_Inr(2,3) [OF ok] by (cases "k \<in> nb_ID ` set (Bidders na)") auto
  qed
next
  assume ok: "NewAuction na new_id = Inr a" and "b \<in> set (Bidders na)"
  then have "storer a (nb_ID b) = Some (toNewBidder b)"
    using NewAuction_Inr(2) by blast
  then show "storer a (nb_ID b) =
           Some \<lparr>ID = nb_ID b, Name = nb_Name b, StartingBid = nb_StartingBid b,
                 MaxBid = nb_MaxBid b, CurrentBid = nb_CurrentBid b,
                 AutoIncrement = nb_AutoIncrement b, LastBidTime = nb_LastBidTime b\<rparr>"
    by (simp add: toNewBidder_def)
qed

theorem NewAuction_all_or_nothing_witness:
  "validateBidder (John\<lparr>nb_MaxBid := 59\<rparr>) = Some MaxBidBelowStartingBid \<and>
   NewAuction unsound_config 9 =
     Inl (InvalidAuctionData (InvalidBidderData 2 MaxBidBelowStartingBid)) \<and>
   NewAuction overbid_config 9 = Inr overbid_auction \<and>
   dom (storer overbid_auction) = {1, 2} \<and>
   map_option CurrentBid (storer overbid_auction 1) = Some 100 \<and>
   map_option StartingBid (storer overbid_auction 1) = Some 50"
  using NewAuction_all_or_nothing [of "John\<lparr>nb_MaxBid := 59\<rparr>" unsound_config 9]
    NewAuction_all_or_nothing [of "Sasha\<lparr>nb_CurrentBid := 100\<rparr>" overbid_config 9
      overbid_auction]
  by (simp add: overbid_auction_built)
    (auto simp: eval_simps overbid_config_def overbid_auction_def unsound_config_def)













text \<open>
  C1, amended. Let \<open>bdrs\<close> be the bidders that \<open>ListBidders\<close> returns, with pairwise
  different identifiers and with no empty name. When \<open>DetermineWinner\<close> returns the
  identifier of a listed bidder \<open>B\<close>, it returns the name of \<open>B\<close> with it, and no listed
  bidder \<open>C\<close> has a current bid strictly below that of \<open>B\<close>, or the same current bid
  with a strictly earlier last bid. In particular, when the list is made of two bidders
  \<open>A\<close> and \<open>B'\<close>, in either order, with the same current bid and the last bid of \<open>A\<close>
  earlier, \<open>DetermineWinner\<close> returns \<open>A\<close>.
\<close>

theorem DetermineWinner_lowest_earliest:
  assumes "ListBidders (storer a) order = Inr bdrs"
    and "distinct (map ID bdrs)" and "\<forall>b\<in>set bdrs. Name b \<noteq> []"
  shows "(DetermineWinner a order = Inr w \<and> B \<in> set bdrs \<and> Winner_ID w = ID B \<and>
          C \<in> set bdrs \<longrightarrow>
            Winner_Name w = Name B \<and>
            \<not> CurrentBid C < CurrentBid B \<and>
            \<not> (CurrentBid C = CurrentBid B \<and> LastBidTime C < LastBidTime B)) \<and>
         ((bdrs = [A, B'] \<or> bdrs = [B', A]) \<and> CurrentBid A = CurrentBid B' \<and>
          LastBidTime A < LastBidTime B' \<longrightarrow>
            DetermineWinner a order = Inr \<lparr>Winner_ID = ID A, Winner_Name = Name A\<rparr>)"
proof (intro conjI impI)
  let ?r = "winnerLoop zero_bidder bdrs"
  note dw = DetermineWinner_listed [OF assms(1)]
  {
    assume h: "DetermineWinner a order = Inr w \<and> B \<in> set bdrs \<and> Winner_ID w = ID B \<and>
          C \<in> set bdrs"
    then have "bdrs \<noteq> []" by auto
    from winnerLoop_named [OF this assms(3)]
    have mem: "?r \<in> set bdrs" and least: "\<forall>c\<in>set bdrs. \<not> beats c ?r" .
    have w: "w = \<lparr>Winner_ID = ID ?r, Winner_Name = Name ?r\<rparr>"
      using h dw by (simp split: if_splits)
    have "inj_on ID (set bdrs)"
      using assms(2) by (simp add: distinct_map)
    moreover have "ID ?r = ID B" using h w by simp
    ultimately have "?r = B" using mem h by (auto dest: inj_onD)
    with w least h show "Winner_Name w = Name B"
      and "\<not> CurrentBid C < CurrentBid B"
      and "\<not> (CurrentBid C = CurrentBid B \<and> LastBidTime C < LastBidTime B)"
      by (auto simp: beats_def)
  }
  {
    assume h: "(bdrs = [A, B'] \<or> bdrs = [B', A]) \<and> CurrentBid A = CurrentBid B' \<and>
          LastBidTime A < LastBidTime B'"
    then have "Name A \<noteq> []" and "Name B' \<noteq> []"
      using assms(3) by auto
    then have "?r = A"
      using h by (auto simp: isWinner_def zero_bidder_def)
    with \<open>Name A \<noteq> []\<close> dw
    show "DetermineWinner a order = Inr \<lparr>Winner_ID = ID A, Winner_Name = Name A\<rparr>"
      by simp
  }
qed

theorem DetermineWinner_lowest_earliest_witness:
  "ListBidders (storer tie_auction) [2, 1] = Inr [tie_B, tie_A] \<and>
   CurrentBid tie_A = 78 \<and> CurrentBid tie_B = 78 \<and> LastBidTime tie_A < LastBidTime tie_B \<and>
   DetermineWinner tie_auction [2, 1] = Inr \<lparr>Winner_ID = 1, Winner_Name = ''A''\<rparr> \<and>
   DetermineWinner tie_auction [1, 2] = Inr \<lparr>Winner_ID = 1, Winner_Name = ''A''\<rparr> \<and>
   \<not> CurrentBid tie_B < CurrentBid tie_A \<and> \<not> LastBidTime tie_B < LastBidTime tie_A"
  using DetermineWinner_lowest_earliest [of tie_auction "[2, 1]" "[tie_B, tie_A]"
      "\<lparr>Winner_ID = 1, Winner_Name = ''A''\<rparr>" tie_A tie_B tie_A tie_B]
    DetermineWinner_lowest_earliest [of tie_auction "[1, 2]" "[tie_A, tie_B]"
      "\<lparr>Winner_ID = 1, Winner_Name = ''A''\<rparr>" tie_A tie_B tie_A tie_B]
  by (simp add: ListBidders_def tie_auction_def tie_A_def tie_B_def)

theorem DetermineWinner_lowest_earliest_counterexample:
  "NewAuction unnamed_config 9 = Inr unnamed_auction \<and>
   ListBidders (storer unnamed_auction) [1, 2] =
     Inr [toNewBidder unnamed_U, toNewBidder named_N] \<and>
   DetermineWinner unnamed_auction [1, 2] = Inr \<lparr>Winner_ID = 2, Winner_Name = ''N''\<rparr> \<and>
   ID (toNewBidder named_N) = 2 \<and>
   CurrentBid (toNewBidder unnamed_U) < CurrentBid (toNewBidder named_N)"
  by (simp add: unnamed_auction_built)
    (simp add: eval_simps unnamed_auction_def unnamed_U_def named_N_def)

text \<open>
  C7, amended. Let \<open>bdrs\<close> be the bidders that \<open>ListBidders\<close> returns. When the list is
  empty or every listed bidder has an empty name, \<open>DetermineWinner\<close> fails with the error
  of no winner. When the list is not empty and every listed bidder has a name that is
  not empty, \<open>DetermineWinner\<close> returns the identifier and the name of a listed bidder.
  It fails with no other error.
\<close>

theorem DetermineWinner_NoWinner:
  assumes "ListBidders (storer a) order = Inr bdrs"
  shows "(bdrs = [] \<or> (\<forall>b\<in>set bdrs. Name b = []) \<longrightarrow>
            DetermineWinner a order = Inl NoWinner) \<and>
         (bdrs \<noteq> [] \<and> (\<forall>b\<in>set bdrs. Name b \<noteq> []) \<longrightarrow>
            (\<exists>b\<in>set bdrs.
               DetermineWinner a order = Inr \<lparr>Winner_ID = ID b, Winner_Name = Name b\<rparr>)) \<and>
         (DetermineWinner a order = Inl err \<longrightarrow> err = NoWinner)"
proof (intro conjI impI)
  let ?r = "winnerLoop zero_bidder bdrs"
  note dw = DetermineWinner_listed [OF assms]
  {
    assume "bdrs = [] \<or> (\<forall>b\<in>set bdrs. Name b = [])"
    then have "\<forall>b\<in>set bdrs. Name b = []" by auto
    then have "Name ?r = []" by (rule winnerLoop_unnamed)
    with dw show "DetermineWinner a order = Inl NoWinner" by simp
  }
  {
    assume h: "bdrs \<noteq> [] \<and> (\<forall>b\<in>set bdrs. Name b \<noteq> [])"
    then have "bdrs \<noteq> []" and "\<forall>b\<in>set bdrs. Name b \<noteq> []" by simp_all
    from winnerLoop_named(1) [OF this] have mem: "?r \<in> set bdrs" .
    with h have "Name ?r \<noteq> []" by simp
    with dw have "DetermineWinner a order = Inr \<lparr>Winner_ID = ID ?r, Winner_Name = Name ?r\<rparr>"
      by simp
    with mem show "\<exists>b\<in>set bdrs.
        DetermineWinner a order = Inr \<lparr>Winner_ID = ID b, Winner_Name = Name b\<rparr>"
      by blast
  }
  {
    assume "DetermineWinner a order = Inl err"
    with dw show "err = NoWinner" by (simp split: if_splits)
  }
qed

theorem DetermineWinner_NoWinner_witness:
  "ListBidders (storer tie_auction) [] = Inr [] \<and>
   DetermineWinner tie_auction [] = Inl NoWinner \<and>
   ListBidders (storer unnamed_auction) [1] = Inr [toNewBidder unnamed_U] \<and>
   Name (toNewBidder unnamed_U) = [] \<and>
   DetermineWinner unnamed_auction [1] = Inl NoWinner \<and>
   ListBidders (storer test_auction) [3, 1, 2] =
     Inr [toNewBidder Pat, toNewBidder Sasha, toNewBidder John] \<and>
   DetermineWinner test_auction [3, 1, 2] = Inr \<lparr>Winner_ID = 1, Winner_Name = ''Sasha''\<rparr>"
  using DetermineWinner_NoWinner [of tie_auction "[]" "[]" NoWinner]
    DetermineWinner_NoWinner [of unnamed_auction "[1]" "[toNewBidder unnamed_U]" NoWinner]
    DetermineWinner_NoWinner [of test_auction "[3, 1, 2]"
      "[toNewBidder Pat, toNewBidder Sasha, toNewBidder John]" NoWinner]
  by (simp add: eval_simps tie_auction_def unnamed_auction_def unnamed_U_def named_N_def)

theorem DetermineWinner_NoWinner_counterexample:
  "NewAuction unnamed_config 9 = Inr unnamed_auction \<and>
   ListBidders (storer unnamed_auction) [2, 1] =
     Inr [toNewBidder named_N, toNewBidder unnamed_U] \<and>
   Name (toNewBidder named_N) = ''N'' \<and>
   DetermineWinner unnamed_auction [2, 1] = Inl NoWinner"
  by (simp add: unnamed_auction_built)
    (simp add: eval_simps unnamed_auction_def unnamed_U_def named_N_def)

end
